theory Spec2Isabelle
  imports Main
begin

section \<open>The daemon controller of rgbd (src/daemon/controller.py)\<close>

text \<open>
  The class \<open>RGBd\<close> turns an animation loop into a Unix daemon: a pidfile as the lock,
  a double fork, signal handlers, and a listener child that is shut down with escalating
  force. Every method acts on the operating system, so each one is modelled as a function
  from a machine state to an outcome and the state that follows. The machine state holds
  the object's attributes, the files, the process table and the list of the effects
  performed so far, in order.
\<close>

subsection \<open>Outcomes of a call\<close>

text \<open>
  The exceptions the controller can meet. \<open>AttributeError\<close> carries the name of the
  attribute that was read before any assignment to it.
\<close>

datatype exn =
    AttributeError string
  | ValueError
  | FileNotFoundError
  | ProcessLookupError
  | PermissionError
  | OverflowError
  | TypeError
  | AssertionError string
  | OSError string
  | Exception string

text \<open>
  \<open>except OSError\<close> also catches the subclasses of \<open>OSError\<close> among these.
\<close>

fun is_OSError :: "exn \<Rightarrow> bool" where
  "is_OSError (OSError _) = True"
| "is_OSError FileNotFoundError = True"
| "is_OSError ProcessLookupError = True"
| "is_OSError PermissionError = True"
| "is_OSError _ = False"

fun is_FileNotFoundError :: "exn \<Rightarrow> bool" where
  "is_FileNotFoundError FileNotFoundError = True"
| "is_FileNotFoundError _ = False"

fun is_ProcessLookupError :: "exn \<Rightarrow> bool" where
  "is_ProcessLookupError ProcessLookupError = True"
| "is_ProcessLookupError _ = False"

fun is_PermissionError :: "exn \<Rightarrow> bool" where
  "is_PermissionError PermissionError = True"
| "is_PermissionError _ = False"

text \<open>
  A call returns a value, ends with an uncaught exception, ends the process through
  \<open>sys.exit\<close> (the \<open>SystemExit\<close> exception, which no handler of this file catches), or
  never comes back: \<open>NoReturn\<close> is the animation loop, which is left only through a
  signal handler.
\<close>

datatype 'a outcome = Return 'a | Raise exn | Exit int | NoReturn

subsection \<open>The operating system as the controller sees it\<close>

text \<open>\<open>SIG0\<close> is the signal number 0 of \<open>os.kill(pid, 0)\<close>: a probe that delivers nothing.\<close>

datatype signal = SIGINT | SIGTERM | SIGHUP | SIGKILL | SIG0

text \<open>
  An entry of the process table is a target that \<open>os.kill\<close> can address.
  \<open>may_signal\<close>: the caller is permitted to signal it. \<open>exits_on sig\<close>: after the
  delivery of \<open>sig\<close> the target is gone by the time the caller looks again (after the
  sleep of \<open>stop\<close>, after the join of \<open>cleanup\<close>).
\<close>

record proc =
  may_signal :: bool
  exits_on :: "signal \<Rightarrow> bool"

datatype stream = Stdin | Stdout | Stderr

datatype handler = Cleanup | Reload

text \<open>
  What \<open>os.fork()\<close> does for the process whose execution is followed: it raises
  \<open>OSError\<close>, it returns the child's pid (the followed process is the parent), or it
  returns 0 (the followed process is the new child, whose own pid is given).
\<close>

datatype fork_result = ForkFails string | InParent int | InChild int

text \<open>The effects, in the order they are performed. Durations are in milliseconds.\<close>

datatype event =
    EvStderr string
  | EvStdout string
  | EvKill int signal
  | EvSleep nat
  | EvJoin int nat
  | EvRemove string
  | EvWrite string string
  | EvFork fork_result
  | EvChdir string
  | EvSetsid
  | EvUmask nat
  | EvFlush stream
  | EvOpen string string
  | EvDup2 string stream
  | EvBind signal handler
  | EvBlank
  | EvSpawn int
  | EvAnimate
  | EvClose stream

subsection \<open>The configuration and the object\<close>

text \<open>
  The configuration is the dictionary that \<open>loadconf\<close> returns. Its keys are optional
  (\<open>None\<close>: the key is missing and \<open>.get\<close> takes its default) and carry the types that
  the controller expects of them.
\<close>

record daemon_conf =
  c_stdin :: "string option"
  c_stdin_mode :: "string option"
  c_stdout :: "string option"
  c_stdout_mode :: "string option"
  c_stderr :: "string option"
  c_stderr_mode :: "string option"
  c_working_dir :: "string option"
  c_pidfile :: "string option"

record config =
  c_blank_on_exit :: "bool option"
  c_daemonize :: "bool option"
  c_daemon :: "daemon_conf option"

text \<open>
  The attributes of an \<open>RGBd\<close> object. An attribute of type \<open>option\<close> is one that some
  path through the code leaves unassigned: \<open>None\<close> is "never assigned", and reading it
  raises \<open>AttributeError\<close>. A \<open>multiprocessing.Process\<close> object is known by its
  \<open>pid\<close> attribute, which is \<open>None\<close> until the process has been started.
\<close>

datatype process = Process (pid_attr: "int option")

record rgbd =
  conf :: config
  blank_on_exit :: bool
  do_daemonize :: bool
  daemon_stdin :: "string option"
  daemon_in_md :: "string option"
  daemon_stdout :: "string option"
  daemon_out_md :: "string option"
  daemon_stderr :: "string option"
  daemon_err_md :: "string option"
  daemon_chdir :: "string option"
  daemon_pidfile :: "string option"
  queue :: "unit option"
  listener_thread :: "process option"
  strip :: "unit option"

definition os_devnull :: string where
  "os_devnull = ''/dev/null''"

definition get_default :: "'a option \<Rightarrow> 'a \<Rightarrow> 'a" where
  "get_default v d = (case v of None \<Rightarrow> d | Some x \<Rightarrow> x)"

definition empty_daemon_conf :: daemon_conf where
  "empty_daemon_conf =
     \<lparr>c_stdin = None, c_stdin_mode = None, c_stdout = None, c_stdout_mode = None,
      c_stderr = None, c_stderr_mode = None, c_working_dir = None, c_pidfile = None\<rparr>"

text \<open>
  \<open>__init__\<close> (lines 15 to 34), applied to the loaded configuration. With
  \<open>daemonize\<close> false it returns at line 21, before any of the \<open>daemon_\<close> attributes is
  assigned.
\<close>

definition init :: "config \<Rightarrow> rgbd" where
  "init c =
     (let unset =
            \<lparr>conf = c,
             blank_on_exit = get_default (c_blank_on_exit c) False,
             do_daemonize = get_default (c_daemonize c) True,
             daemon_stdin = None, daemon_in_md = None,
             daemon_stdout = None, daemon_out_md = None,
             daemon_stderr = None, daemon_err_md = None,
             daemon_chdir = None, daemon_pidfile = None,
             queue = None, listener_thread = None, strip = None\<rparr>
      in if do_daemonize unset = False then unset
         else
           (let d_conf = get_default (c_daemon c) empty_daemon_conf
            in unset
                 \<lparr>daemon_stdin := Some (get_default (c_stdin d_conf) os_devnull),
                  daemon_in_md := Some (get_default (c_stdin_mode d_conf) ''r''),
                  daemon_stdout := Some (get_default (c_stdout d_conf) os_devnull),
                  daemon_out_md := Some (get_default (c_stdout_mode d_conf) ''a''),
                  daemon_stderr := Some (get_default (c_stderr d_conf) os_devnull),
                  daemon_err_md := Some (get_default (c_stderr_mode d_conf) ''a''),
                  daemon_chdir := Some (get_default (c_working_dir d_conf) ''/''),
                  daemon_pidfile := Some (get_default (c_pidfile d_conf) ''/tmp/rgbd.pid'')\<rparr>))"

subsection \<open>The machine state\<close>

text \<open>
  \<open>fs\<close> maps a path to the content of the file there. \<open>procs\<close> is the process table.
  \<open>trace\<close> is the list of effects so far. \<open>own_pid\<close> is what \<open>os.getpid()\<close> returns.
  \<open>forks\<close> gives the result of the n-th call of \<open>os.fork()\<close> and \<open>nforks\<close> counts the
  calls made. \<open>spawn\<close> is what starting the listener process yields: the pid and the
  table entry of the new child, or \<open>None\<close> when the start fails. \<open>py_major\<close>, \<open>uid\<close>,
  \<open>euid\<close> and \<open>gid\<close> are the interpreter's major version and the ids of the process.
  \<open>now\<close> is the rendering of \<open>datetime.datetime.now()\<close>.
\<close>

record state =
  self :: rgbd
  fs :: "string \<rightharpoonup> string"
  procs :: "int \<rightharpoonup> proc"
  trace :: "event list"
  own_pid :: int
  forks :: "nat \<Rightarrow> fork_result"
  nforks :: nat
  spawn :: "(int \<times> proc) option"
  py_major :: nat
  uid :: nat
  euid :: nat
  gid :: nat
  now :: string

type_synonym 'a action = "state \<Rightarrow> 'a outcome \<times> state"

definition return :: "'a \<Rightarrow> 'a action" where
  "return a s = (Return a, s)"

definition raise :: "exn \<Rightarrow> 'a action" where
  "raise e s = (Raise e, s)"

text \<open>Sequencing: the second action runs only when the first one returns.\<close>

definition and_then :: "'a action \<Rightarrow> ('a \<Rightarrow> 'b action) \<Rightarrow> 'b action" where
  "and_then m f s =
     (case m s of
        (Return a, s') \<Rightarrow> f a s'
      | (Raise e, s') \<Rightarrow> (Raise e, s')
      | (Exit n, s') \<Rightarrow> (Exit n, s')
      | (NoReturn, s') \<Rightarrow> (NoReturn, s'))"

text \<open>
  \<open>try: m except E as e: h\<close>, where \<open>is_E\<close> recognises the instances of the class
  \<open>E\<close>. Any other exception, and \<open>SystemExit\<close>, pass through.
\<close>

definition try_except :: "'a action \<Rightarrow> (exn \<Rightarrow> bool) \<Rightarrow> (exn \<Rightarrow> 'a action) \<Rightarrow> 'a action" where
  "try_except m is_E h s =
     (case m s of
        (Raise e, s') \<Rightarrow> if is_E e then h e s' else (Raise e, s')
      | (Return a, s') \<Rightarrow> (Return a, s')
      | (Exit n, s') \<Rightarrow> (Exit n, s')
      | (NoReturn, s') \<Rightarrow> (NoReturn, s'))"

text \<open>The C type \<open>pid_t\<close> of the first argument of \<open>os.kill\<close>: a signed 32-bit integer.\<close>

definition pid_t_ok :: "int \<Rightarrow> bool" where
  "pid_t_ok n = (- (2 ^ 31) \<le> n \<and> n < 2 ^ 31)"

text \<open>
  A delivered signal ends the target when it is \<open>SIGKILL\<close>, which no process can catch or
  ignore, or when the target exits on it. The probe \<open>SIG0\<close> ends nothing.
\<close>

definition ends_target :: "proc \<Rightarrow> signal \<Rightarrow> bool" where
  "ends_target p sig = (sig = SIGKILL \<or> (sig \<noteq> SIG0 \<and> exits_on p sig))"

text \<open>
  What an effect changes outside the object: a removed file leaves \<open>fs\<close>, a written one
  enters it, a delivered signal that ends its target takes the target from the process
  table, a started child enters the table, and a fork is counted (in the new child,
  \<open>os.getpid()\<close> changes). The other effects leave files and processes as they are.
\<close>

fun effect :: "event \<Rightarrow> state \<Rightarrow> state" where
  "effect (EvRemove path) s = s\<lparr>fs := (fs s)(path := None)\<rparr>"
| "effect (EvWrite path content) s = s\<lparr>fs := (fs s)(path \<mapsto> content)\<rparr>"
| "effect (EvKill n sig) s =
     (case procs s n of
        None \<Rightarrow> s
      | Some p \<Rightarrow> if ends_target p sig then s\<lparr>procs := (procs s)(n := None)\<rparr> else s)"
| "effect (EvSpawn c) s =
     (case spawn s of
        None \<Rightarrow> s
      | Some (_, p) \<Rightarrow> s\<lparr>procs := (procs s)(c \<mapsto> p)\<rparr>)"
| "effect (EvFork r) s =
     (case r of
        InChild p \<Rightarrow> s\<lparr>nforks := Suc (nforks s), own_pid := p\<rparr>
      | _ \<Rightarrow> s\<lparr>nforks := Suc (nforks s)\<rparr>)"
| "effect _ s = s"

definition perform :: "event \<Rightarrow> state \<Rightarrow> state" where
  "perform e s = (effect e s)\<lparr>trace := trace (effect e s) @ [e]\<rparr>"

definition emit :: "event \<Rightarrow> unit action" where
  "emit e s = (Return (), perform e s)"

definition get_attr :: "string \<Rightarrow> (rgbd \<Rightarrow> 'a option) \<Rightarrow> 'a action" where
  "get_attr name field s =
     (case field (self s) of
        None \<Rightarrow> (Raise (AttributeError name), s)
      | Some v \<Rightarrow> (Return v, s))"

definition sys_exit :: "int \<Rightarrow> 'a action" where
  "sys_exit n s = (Exit n, s)"

definition stderr_write :: "string \<Rightarrow> unit action" where
  "stderr_write m = emit (EvStderr m)"

text \<open>\<open>print\<close> writes its argument and a newline to the standard output.\<close>

definition line :: "string \<Rightarrow> string" where
  "line m = m @ ''\<newline>''"

definition print :: "string \<Rightarrow> unit action" where
  "print m = emit (EvStdout (line m))"

subsection \<open>Python's \<open>str.strip\<close>, \<open>int\<close> and \<open>format\<close>\<close>

text \<open>
  A file's content is a string over the first 256 code points. The white space of
  \<open>str.strip\<close> there: tab to carriage return, the four separators 28 to 31, the space,
  and the code points 133 and 160.
\<close>

definition is_space :: "char \<Rightarrow> bool" where
  "is_space c =
     (let n = (of_char c :: nat)
      in (9 \<le> n \<and> n \<le> 13) \<or> (28 \<le> n \<and> n \<le> 32) \<or> n = 133 \<or> n = 160)"

definition py_strip :: "string \<Rightarrow> string" where
  "py_strip s = rev (dropWhile is_space (rev (dropWhile is_space s)))"

definition is_digit :: "char \<Rightarrow> bool" where
  "is_digit c = (48 \<le> (of_char c :: nat) \<and> (of_char c :: nat) \<le> 57)"

definition digit_val :: "char \<Rightarrow> nat" where
  "digit_val c = of_char c - 48"

text \<open>
  The digits of a decimal literal after its first digit: a single underscore may stand
  between two digits, nowhere else.
\<close>

fun int_digits :: "nat \<Rightarrow> string \<Rightarrow> nat option" where
  "int_digits acc [] = Some acc"
| "int_digits acc (c # cs) =
     (if is_digit c then int_digits (10 * acc + digit_val c) cs
      else if c = CHR ''_'' then
        (case cs of
           [] \<Rightarrow> None
         | d # ds \<Rightarrow> if is_digit d then int_digits (10 * acc + digit_val d) ds else None)
      else None)"

definition unsigned_literal :: "string \<Rightarrow> nat option" where
  "unsigned_literal s =
     (case s of
        [] \<Rightarrow> None
      | c # cs \<Rightarrow> if is_digit c then int_digits (digit_val c) cs else None)"

text \<open>
  \<open>int(s)\<close> for a string, base 10: white space around the literal is skipped, one sign
  is allowed, leading zeros are allowed. \<open>None\<close> is \<open>ValueError\<close>. (The limit that
  newer interpreters put on the number of digits is a setting of the interpreter and is
  left out.)
\<close>

definition py_int :: "string \<Rightarrow> int option" where
  "py_int s =
     (case py_strip s of
        [] \<Rightarrow> None
      | c # cs \<Rightarrow>
          if c = CHR ''-'' then map_option (\<lambda>n. - int n) (unsigned_literal cs)
          else if c = CHR ''+'' then map_option int (unsigned_literal cs)
          else map_option int (unsigned_literal (c # cs)))"

definition digit_char :: "nat \<Rightarrow> char" where
  "digit_char d = char_of (48 + d)"

fun show_nat :: "nat \<Rightarrow> string" where
  "show_nat n = (if n < 10 then [digit_char n] else show_nat (n div 10) @ [digit_char (n mod 10)])"

declare show_nat.simps [simp del]

text \<open>\<open>"{}".format(n)\<close> for an integer.\<close>

definition show_int :: "int \<Rightarrow> string" where
  "show_int i = (if i < 0 then CHR ''-'' # show_nat (nat (- i)) else show_nat (nat i))"

text \<open>\<open>"{}".format(pid)\<close> where \<open>pid\<close> is an integer or \<open>None\<close>.\<close>

definition py_str :: "int option \<Rightarrow> string" where
  "py_str v = (case v of None \<Rightarrow> ''None'' | Some i \<Rightarrow> show_int i)"

text \<open>The truth value of \<open>pid\<close> in \<open>if pid:\<close>: \<open>None\<close> and 0 are false.\<close>

definition truthy :: "int option \<Rightarrow> bool" where
  "truthy v = (case v of None \<Rightarrow> False | Some i \<Rightarrow> i \<noteq> 0)"

subsection \<open>The library calls\<close>

text \<open>
  \<open>os.remove\<close>. Only files of \<open>fs\<close> exist; a missing file is the one failure modelled.
\<close>

definition os_remove :: "string \<Rightarrow> unit action" where
  "os_remove path s =
     (case fs s path of
        None \<Rightarrow> (Raise FileNotFoundError, s)
      | Some _ \<Rightarrow> emit (EvRemove path) s)"

definition os_path_exists :: "string \<Rightarrow> bool action" where
  "os_path_exists path s = (Return (case fs s path of None \<Rightarrow> False | Some _ \<Rightarrow> True), s)"

text \<open>\<open>open(path, "r")\<close> followed by \<open>read()\<close>.\<close>

definition read_file :: "string \<Rightarrow> string action" where
  "read_file path s =
     (case fs s path of
        None \<Rightarrow> (Raise FileNotFoundError, s)
      | Some content \<Rightarrow> (Return content, s))"

text \<open>\<open>open(path, "w")\<close> followed by \<open>write(content)\<close>: the file is created or replaced.\<close>

definition write_file :: "string \<Rightarrow> string \<Rightarrow> unit action" where
  "write_file path content = emit (EvWrite path content)"

text \<open>
  \<open>os.kill(pid, sig)\<close>. \<open>None\<close> is not an integer; an integer outside \<open>pid_t\<close> does not
  convert; a target that is not in the table gives \<open>ProcessLookupError\<close>; one that the
  caller may not signal gives \<open>PermissionError\<close>. Otherwise the signal is delivered. (A
  negative number addresses a process group: the table entry under that number stands
  for the group.)
\<close>

definition os_kill :: "int option \<Rightarrow> signal \<Rightarrow> unit action" where
  "os_kill target sig s =
     (case target of
        None \<Rightarrow> (Raise TypeError, s)
      | Some n \<Rightarrow>
          if \<not> pid_t_ok n then (Raise OverflowError, s)
          else
            (case procs s n of
               None \<Rightarrow> (Raise ProcessLookupError, s)
             | Some p \<Rightarrow>
                 if \<not> may_signal p then (Raise PermissionError, s)
                 else emit (EvKill n sig) s))"

definition time_sleep :: "nat \<Rightarrow> unit action" where
  "time_sleep ms = emit (EvSleep ms)"

text \<open>
  \<open>Process.join(timeout)\<close> waits until the child has exited, at most \<open>timeout\<close>, and
  \<open>Process.is_alive()\<close> tells whether the child is still there. On a process that was
  never started, \<open>join\<close> fails its assertion and \<open>is_alive\<close> is false.
\<close>

definition join :: "process \<Rightarrow> nat \<Rightarrow> unit action" where
  "join p ms s =
     (case pid_attr p of
        None \<Rightarrow> (Raise (AssertionError ''can only join a started process''), s)
      | Some c \<Rightarrow> emit (EvJoin c ms) s)"

definition is_alive :: "process \<Rightarrow> bool action" where
  "is_alive p s =
     (case pid_attr p of
        None \<Rightarrow> (Return False, s)
      | Some c \<Rightarrow> (Return (case procs s c of None \<Rightarrow> False | Some _ \<Rightarrow> True), s))"

definition os_fork :: "int action" where
  "os_fork s =
     (let r = forks s (nforks s); s' = perform (EvFork r) s
      in case r of
           ForkFails msg \<Rightarrow> (Raise (OSError msg), s')
         | InParent c \<Rightarrow> (Return c, s')
         | InChild p \<Rightarrow> (Return 0, s'))"

text \<open>\<open>str(e)\<close> for the exception of a failed fork.\<close>

fun exn_text :: "exn \<Rightarrow> string" where
  "exn_text (OSError m) = m"
| "exn_text (Exception m) = m"
| "exn_text (AssertionError m) = m"
| "exn_text (AttributeError a) = a"
| "exn_text _ = []"

text \<open>
  Modelled from the spec: the animation engine (module \<open>strip\<close>) and the event listener
  (module \<open>dbus_listener\<close>) are not in the source tree. The spec gives their interface:
  \<open>blank() -> void\<close>, and \<open>consume(channel)\<close>, which never returns normally. Constructing
  the engine is taken to succeed.
\<close>

definition blank_strip :: "unit action" where
  "blank_strip = emit EvBlank"

definition animate :: "unit action" where
  "animate s = (NoReturn, perform EvAnimate s)"

text \<open>
  Creating and starting the listener process (lines 47 and 48). The attribute is
  assigned before the start; on success the child enters the process table.
\<close>

definition start_listener :: "unit action" where
  "start_listener s =
     (let s1 = s\<lparr>self := (self s)\<lparr>listener_thread := Some (Process None)\<rparr>\<rparr>
      in case spawn s of
           None \<Rightarrow> (Raise (OSError ''fork''), s1)
         | Some (c, p) \<Rightarrow>
             emit (EvSpawn c) (s1\<lparr>self := (self s1)\<lparr>listener_thread := Some (Process (Some c))\<rparr>\<rparr>))"

subsection \<open>The methods of \<open>RGBd\<close>\<close>

text \<open>\<open>run\<close> (lines 40 to 51).\<close>

definition root_msg :: string where
  "root_msg =
     ''This daemon should not be run as root due to security reasons.\<newline>'' @
     ''Please control your ws281x using SPI instead of PWM.''"

definition run :: "unit action" where
  "run =
     (\<lambda>s.
        if py_major s < 3 then raise (Exception ''must be running at least python 3'') s
        else if uid s = 0 \<or> euid s = 0 \<or> gid s = 0 then
          raise (Exception root_msg) s
        else
          and_then (\<lambda>s. (Return (), s\<lparr>self := (self s)\<lparr>queue := Some ()\<rparr>\<rparr>)) (\<lambda>_.
          and_then start_listener (\<lambda>_.
          and_then (\<lambda>s. (Return (), s\<lparr>self := (self s)\<lparr>strip := Some ()\<rparr>\<rparr>)) (\<lambda>_.
          and_then (get_attr ''strip'' strip) (\<lambda>_.
          and_then (get_attr ''queue'' queue) (\<lambda>_.
          animate))))) s)"

text \<open>
  The statement at lines 134 to 138 of \<open>start\<close>, which is also the one at lines 150 to
  154 of \<open>stop\<close>: read the pidfile, strip it, convert it; a missing file gives \<open>None\<close>.
\<close>

definition read_pid :: "int option action" where
  "read_pid =
     try_except
       (and_then (get_attr ''daemon_pidfile'' daemon_pidfile) (\<lambda>path.
        and_then (read_file path) (\<lambda>content.
          case py_int (py_strip content) of
            None \<Rightarrow> raise ValueError
          | Some n \<Rightarrow> return (Some n))))
       is_FileNotFoundError
       (\<lambda>e. return None)"

text \<open>\<open>daemonize\<close> (lines 84 to 130). The files behind the three standard streams are
  not files of \<open>fs\<close>: opening them is an effect that is taken to succeed.\<close>

definition daemonized_msg :: "string \<Rightarrow> string" where
  "daemonized_msg t = ''Daemonization finished at '' @ t"

definition fork_failed_msg :: "string \<Rightarrow> exn \<Rightarrow> string" where
  "fork_failed_msg which e = which @ '' fork failed: '' @ exn_text e @ ''\<newline>''"

definition fork_and_leave :: "string \<Rightarrow> unit action" where
  "fork_and_leave which =
     try_except
       (and_then os_fork (\<lambda>pid. if pid > 0 then sys_exit 0 else return ()))
       is_OSError
       (\<lambda>e. and_then (stderr_write (fork_failed_msg which e)) (\<lambda>_. sys_exit 1))"

definition daemonize :: "unit action" where
  "daemonize =
     (\<lambda>s.
        if \<not> do_daemonize (self s) then return () s
        else
          and_then (fork_and_leave ''first'') (\<lambda>_.
          and_then (get_attr ''daemon_chdir'' daemon_chdir) (\<lambda>dir.
          and_then (emit (EvChdir dir)) (\<lambda>_.
          and_then (emit EvSetsid) (\<lambda>_.
          and_then (emit (EvUmask 0)) (\<lambda>_.
          and_then (fork_and_leave ''second'') (\<lambda>_.
          and_then (emit (EvFlush Stdout)) (\<lambda>_.
          and_then (emit (EvFlush Stderr)) (\<lambda>_.
          and_then (get_attr ''daemon_stdin'' daemon_stdin) (\<lambda>inp.
          and_then (get_attr ''daemon_in_md'' daemon_in_md) (\<lambda>in_md.
          and_then (emit (EvOpen inp in_md)) (\<lambda>_.
          and_then (get_attr ''daemon_stdout'' daemon_stdout) (\<lambda>out.
          and_then (get_attr ''daemon_out_md'' daemon_out_md) (\<lambda>out_md.
          and_then (emit (EvOpen out out_md)) (\<lambda>_.
          and_then (get_attr ''daemon_stderr'' daemon_stderr) (\<lambda>err.
          and_then (get_attr ''daemon_err_md'' daemon_err_md) (\<lambda>err_md.
          and_then (emit (EvOpen err err_md)) (\<lambda>_.
          and_then (emit (EvDup2 inp Stdin)) (\<lambda>_.
          and_then (emit (EvDup2 out Stdout)) (\<lambda>_.
          and_then (emit (EvDup2 err Stderr)) (\<lambda>_.
          and_then (emit (EvBind SIGINT Cleanup)) (\<lambda>_.
          and_then (emit (EvBind SIGTERM Cleanup)) (\<lambda>_.
          and_then (emit (EvBind SIGHUP Reload)) (\<lambda>_.
          and_then (get_attr ''daemon_pidfile'' daemon_pidfile) (\<lambda>path.
          and_then (\<lambda>s. write_file path (line (show_int (own_pid s))) s) (\<lambda>_.
          (\<lambda>s. print (daemonized_msg (now s)) s)))))))))))))))))))))))))) s)"

text \<open>\<open>start\<close> (lines 132 to 146).\<close>

definition pidfile_exists_msg :: "int option \<Rightarrow> string" where
  "pidfile_exists_msg pid =
     ''pidfile exists with value '' @ py_str pid @
     ''. There is either a daemon already running, or a daemon crashed and didn't clean up.\<newline>''"

definition start :: "unit action" where
  "start =
     and_then read_pid (\<lambda>pid.
     and_then
       (if truthy pid then
          and_then (stderr_write (pidfile_exists_msg pid)) (\<lambda>_. sys_exit 1)
        else return ()) (\<lambda>_.
     and_then daemonize (\<lambda>_.
     run)))"

text \<open>\<open>stop\<close> (lines 148 to 181).\<close>

definition no_pid_msg :: string where
  "no_pid_msg = ''No pid found when stopping - daemon not running?\<newline>''"

definition unable_to_kill_msg :: "int option \<Rightarrow> string" where
  "unable_to_kill_msg pid = ''Unable to kill existing process with pid '' @ py_str pid @ ''.\<newline>''"

definition hung_msg :: string where
  "hung_msg = ''Daemon didn't exit in time - possibly hung?\<newline>''"

text \<open>Lines 157 and 158, and again 179 and 180: remove the pidfile if it is there.\<close>

definition remove_if_exists :: "unit action" where
  "remove_if_exists =
     and_then (get_attr ''daemon_pidfile'' daemon_pidfile) (\<lambda>path.
     and_then (os_path_exists path) (\<lambda>ex.
       if ex then and_then (get_attr ''daemon_pidfile'' daemon_pidfile) os_remove
       else return ()))"

text \<open>Lines 164 to 173: signal the process, wait 0.3 seconds, probe it.\<close>

definition signal_and_probe :: "int option \<Rightarrow> bool action" where
  "signal_and_probe pid =
     try_except
       (try_except
          (and_then (os_kill pid SIGTERM) (\<lambda>_.
           and_then (time_sleep 300) (\<lambda>_.
           and_then (os_kill pid SIG0) (\<lambda>_.
           return True))))
          is_ProcessLookupError
          (\<lambda>e. return False))
       is_PermissionError
       (\<lambda>e. and_then (stderr_write (unable_to_kill_msg pid)) (\<lambda>_. sys_exit 1))"

definition stop :: "bool \<Rightarrow> unit action" where
  "stop restart =
     and_then read_pid (\<lambda>pid.
       if \<not> truthy pid then
         and_then remove_if_exists (\<lambda>_.
           if restart then return ()
           else stderr_write no_pid_msg)
       else
         and_then (signal_and_probe pid) (\<lambda>isalive.
           if isalive then and_then (stderr_write hung_msg) (\<lambda>_. sys_exit 1)
           else remove_if_exists))"

text \<open>\<open>restart\<close> (lines 183 to 186) and \<open>reload\<close> (lines 53 to 55).\<close>

definition restart :: "unit action" where
  "restart = and_then (stop True) (\<lambda>_. start)"

definition reload :: "unit action" where
  "reload = restart"

text \<open>
  \<open>cleanup\<close> (lines 57 to 77), the handler of the interrupt and terminate signals.
  Lines 60 to 65 end the listener child: interrupt it, join it for at most 0.25 seconds,
  and kill it if it is still alive.
\<close>

definition sigkill_msg :: string where
  "sigkill_msg = ''Had to SIGKILL child - pretty bad; potential orphans''"

definition exited_msg :: "string \<Rightarrow> string" where
  "exited_msg t = ''rgbd exited successfully at '' @ t"

definition terminate_listener :: "unit action" where
  "terminate_listener =
     and_then (get_attr ''listener_thread'' listener_thread) (\<lambda>p.
     and_then (os_kill (pid_attr p) SIGINT) (\<lambda>_.
     and_then (get_attr ''listener_thread'' listener_thread) (\<lambda>p.
     and_then (join p 250) (\<lambda>_.
     and_then (get_attr ''listener_thread'' listener_thread) (\<lambda>p.
     and_then (is_alive p) (\<lambda>alive.
       if alive then
         and_then (get_attr ''listener_thread'' listener_thread) (\<lambda>p.
         and_then (os_kill (pid_attr p) SIGKILL) (\<lambda>_.
         print sigkill_msg))
       else return ()))))))"

definition cleanup :: "unit action" where
  "cleanup =
     and_then
       (\<lambda>s. if blank_on_exit (self s)
            then and_then (get_attr ''strip'' strip) (\<lambda>_. blank_strip) s
            else return () s) (\<lambda>_.
     and_then terminate_listener (\<lambda>_.
     and_then
       (try_except
          (and_then (get_attr ''daemon_pidfile'' daemon_pidfile) os_remove)
          is_FileNotFoundError
          (\<lambda>e. return ())) (\<lambda>_.
     and_then (\<lambda>s. print (exited_msg (now s)) s) (\<lambda>_.
     and_then (emit (EvClose Stdin)) (\<lambda>_.
     and_then (emit (EvClose Stdout)) (\<lambda>_.
     and_then (emit (EvClose Stderr)) (\<lambda>_.
     sys_exit 0)))))))"

subsection \<open>Vocabulary for the properties\<close>

text \<open>The effects that a call added to the trace.\<close>

definition new_events :: "state \<Rightarrow> state \<Rightarrow> event list" where
  "new_events s s' = drop (length (trace s)) (trace s')"

fun is_kill :: "event \<Rightarrow> bool" where
  "is_kill (EvKill n sig) = True"
| "is_kill _ = False"








text \<open>What \<open>stop\<close> does to a process that stays: signal, sleep 0.3 seconds, probe, report.\<close>

definition hang_events :: "int \<Rightarrow> event list" where
  "hang_events n = [EvKill n SIGTERM, EvSleep 300, EvKill n SIG0, EvStderr hung_msg]"

subsection \<open>A machine to run the methods on\<close>

text \<open>
  A configuration without a \<open>daemon\<close> section, so that every default applies and the
  pidfile is \<open>/tmp/rgbd.pid\<close>; a process that exits on every signal and one that exits on
  none; and a machine on which both forks and the start of the listener succeed.
\<close>

definition demo_config :: config where
  "demo_config = \<lparr>c_blank_on_exit = Some True, c_daemonize = None, c_daemon = None\<rparr>"

definition foreground_config :: config where
  "foreground_config = \<lparr>c_blank_on_exit = None, c_daemonize = Some False, c_daemon = None\<rparr>"


definition stubborn :: proc where
  "stubborn = \<lparr>may_signal = True, exits_on = (\<lambda>sig. False)\<rparr>"

definition machine :: "rgbd \<Rightarrow> (string \<rightharpoonup> string) \<Rightarrow> (int \<rightharpoonup> proc) \<Rightarrow> state" where
  "machine obj files table =
     \<lparr>self = obj, fs = files, procs = table, trace = [], own_pid = 4000,
      forks = (\<lambda>k. InChild (4001 + int k)), nforks = 0, spawn = Some (4100, stubborn),
      py_major = 3, uid = 1000, euid = 1000, gid = 1000, now = ''2026-01-01 12:00:00''\<rparr>"


section \<open>Properties\<close>

subsection \<open>Reading the pidfile\<close>

lemma read_pid_unset:
  "daemon_pidfile (self s) = None \<Longrightarrow> read_pid s = (Raise (AttributeError ''daemon_pidfile''), s)"
  by (simp add: read_pid_def try_except_def and_then_def get_attr_def)

lemma read_pid_absent:
  "daemon_pidfile (self s) = Some pf \<Longrightarrow> fs s pf = None \<Longrightarrow> read_pid s = (Return None, s)"
  by (simp add: read_pid_def try_except_def and_then_def get_attr_def read_file_def return_def)

lemma read_pid_parsed:
  "daemon_pidfile (self s) = Some pf \<Longrightarrow> fs s pf = Some content \<Longrightarrow>
   py_int (py_strip content) = Some n \<Longrightarrow> read_pid s = (Return (Some n), s)"
  by (simp add: read_pid_def try_except_def and_then_def get_attr_def read_file_def return_def)

lemma read_pid_unparsed:
  "daemon_pidfile (self s) = Some pf \<Longrightarrow> fs s pf = Some content \<Longrightarrow>
   py_int (py_strip content) = None \<Longrightarrow> read_pid s = (Raise ValueError, s)"
  by (simp add: read_pid_def try_except_def and_then_def get_attr_def read_file_def raise_def)

lemmas parse_defs =
  py_int_def py_strip_def is_space_def unsigned_literal_def is_digit_def digit_val_def

lemma parse_4242: "py_int (py_strip ''4242\<newline>'') = Some 4242"
  by (simp add: parse_defs)

lemma parse_zero: "py_int (py_strip ''0\<newline>'') = Some 0"
  by (simp add: parse_defs)

lemma parse_garbage: "py_int (py_strip ''not a pid\<newline>'') = None"
  by (simp add: parse_defs)

lemma parse_empty: "py_int (py_strip []) = None"
  by (simp add: parse_defs)

subsection \<open>The constructor\<close>

lemma init_foreground:
  assumes "c_daemonize c = Some False"
  shows "init c =
     \<lparr>conf = c, blank_on_exit = get_default (c_blank_on_exit c) False, do_daemonize = False,
      daemon_stdin = None, daemon_in_md = None, daemon_stdout = None, daemon_out_md = None,
      daemon_stderr = None, daemon_err_md = None, daemon_chdir = None, daemon_pidfile = None,
      queue = None, listener_thread = None, strip = None\<rparr>"
  using assms by (simp add: init_def get_default_def)

lemma init_daemon:
  assumes "c_daemonize c \<noteq> Some False"
  shows "do_daemonize (init c) \<and> daemon_pidfile (init c) \<noteq> None \<and> daemon_chdir (init c) \<noteq> None
    \<and> daemon_stdin (init c) \<noteq> None \<and> daemon_in_md (init c) \<noteq> None
    \<and> daemon_stdout (init c) \<noteq> None \<and> daemon_out_md (init c) \<noteq> None
    \<and> daemon_stderr (init c) \<noteq> None \<and> daemon_err_md (init c) \<noteq> None"
  using assms by (cases "c_daemonize c") (auto simp add: init_def get_default_def Let_def)

lemma init_demo:
  "init demo_config =
     \<lparr>conf = demo_config, blank_on_exit = True, do_daemonize = True,
      daemon_stdin = Some os_devnull, daemon_in_md = Some ''r'',
      daemon_stdout = Some os_devnull, daemon_out_md = Some ''a'',
      daemon_stderr = Some os_devnull, daemon_err_md = Some ''a'',
      daemon_chdir = Some ''/'', daemon_pidfile = Some ''/tmp/rgbd.pid'',
      queue = None, listener_thread = None, strip = None\<rparr>"
  by (simp add: init_def demo_config_def get_default_def empty_daemon_conf_def)

subsection \<open>\<open>start\<close>\<close>

lemma start_absent:
  assumes "daemon_pidfile (self s) = Some pf" and "fs s pf = None"
  shows "start s = and_then daemonize (\<lambda>_. run) s"
  using read_pid_absent [OF assms]
  by (simp add: start_def and_then_def truthy_def return_def)

text \<open>
  The way into the animation loop: when both forks continue in the child, the process is
  not root and the listener starts, \<open>daemonize\<close> and \<open>run\<close> end in the loop, with the
  pid of the second child in the pidfile and the listener in the process table.
\<close>

lemma daemonize_run_loop:
  assumes "self s = init c" and "c_daemonize c \<noteq> Some False"
    and "daemon_pidfile (self s) = Some pf"
    and "forks s (nforks s) = InChild p1" and "forks s (Suc (nforks s)) = InChild p2"
    and "3 \<le> py_major s" and "uid s \<noteq> 0" and "euid s \<noteq> 0" and "gid s \<noteq> 0"
    and "spawn s = Some (ch, pr)"
  shows "fst (and_then daemonize (\<lambda>_. run) s) = NoReturn
    \<and> fs (snd (and_then daemonize (\<lambda>_. run) s)) pf = Some (line (show_int p2))
    \<and> listener_thread (self (snd (and_then daemonize (\<lambda>_. run) s))) = Some (Process (Some ch))
    \<and> procs (snd (and_then daemonize (\<lambda>_. run) s)) ch = Some pr
    \<and> strip (self (snd (and_then daemonize (\<lambda>_. run) s))) = Some ()"
  using assms init_daemon [OF assms(2)]
  by (auto simp add: and_then_def return_def daemonize_def fork_and_leave_def
        try_except_def os_fork_def perform_def emit_def get_attr_def write_file_def print_def
        run_def start_listener_def animate_def sys_exit_def Let_def raise_def)

text \<open>
  Claim C1. Whenever reading the pidfile yields a PID, \<open>start\<close> exits with status 1. It
  does not daemonize and has no effect but the message on the error stream: the state
  it leaves is the state it found, with that one message added to the trace. A process
  ID is never 0, and the theorem holds of every integer but 0; what \<open>start\<close> does with
  the content 0 is the subject of claim C9.
\<close>

theorem start_refuses:
  assumes "daemon_pidfile (self s) = Some pf" and "fs s pf = Some content"
    and "py_int (py_strip content) = Some n" and "n \<noteq> 0"
  shows "start s = (Exit 1, s\<lparr>trace := trace s @ [EvStderr (pidfile_exists_msg (Some n))]\<rparr>)"
  using assms read_pid_parsed [OF assms(1-3)]
  by (simp add: start_def and_then_def truthy_def stderr_write_def emit_def perform_def sys_exit_def)

theorem start_refuses_witness:
  "daemon_pidfile (self (machine (init demo_config) [''/tmp/rgbd.pid'' \<mapsto> ''4242\<newline>''] Map.empty))
     = Some ''/tmp/rgbd.pid''
   \<and> py_int (py_strip ''4242\<newline>'') = Some 4242
   \<and> start (machine (init demo_config) [''/tmp/rgbd.pid'' \<mapsto> ''4242\<newline>''] Map.empty)
     = (Exit 1,
        (machine (init demo_config) [''/tmp/rgbd.pid'' \<mapsto> ''4242\<newline>''] Map.empty)
          \<lparr>trace := [EvStderr (pidfile_exists_msg (Some 4242))]\<rparr>)"
proof -
  let ?s = "machine (init demo_config) [''/tmp/rgbd.pid'' \<mapsto> ''4242\<newline>''] Map.empty"
  have attr: "daemon_pidfile (self ?s) = Some ''/tmp/rgbd.pid''"
    by (simp add: machine_def init_demo)
  have disk: "fs ?s ''/tmp/rgbd.pid'' = Some ''4242\<newline>''"
    by (simp add: machine_def)
  have nonzero: "(4242 :: int) \<noteq> 0"
    by simp
  have "trace ?s = []"
    by (simp add: machine_def)
  with start_refuses [OF attr disk parse_4242 nonzero] attr parse_4242
  show ?thesis by simp
qed

text \<open>
  Claim C10. A pidfile whose stripped content is not a decimal integer makes \<open>start\<close>
  and \<open>stop\<close> end with the uncaught \<open>ValueError\<close> of \<open>int\<close>, before any effect: no exit
  status 1, no removal of the file. The handler of the \<open>try\<close> catches the missing file
  only, for which the read gives \<open>None\<close>.
\<close>

theorem unparsable_pidfile:
  assumes "daemon_pidfile (self s) = Some pf" and "fs s pf = Some content"
    and "py_int (py_strip content) = None"
  shows "start s = (Raise ValueError, s) \<and> stop r s = (Raise ValueError, s)
    \<and> read_pid (s\<lparr>fs := (fs s)(pf := None)\<rparr>) = (Return None, s\<lparr>fs := (fs s)(pf := None)\<rparr>)"
proof -
  have "read_pid (s\<lparr>fs := (fs s)(pf := None)\<rparr>) = (Return None, s\<lparr>fs := (fs s)(pf := None)\<rparr>)"
    by (rule read_pid_absent [where pf = pf]) (use assms in simp_all)
  then show ?thesis
    using read_pid_unparsed [OF assms] by (simp add: start_def stop_def and_then_def)
qed

theorem unparsable_pidfile_witness:
  "py_int (py_strip ''not a pid\<newline>'') = None
   \<and> start (machine (init demo_config) [''/tmp/rgbd.pid'' \<mapsto> ''not a pid\<newline>''] Map.empty)
     = (Raise ValueError, machine (init demo_config) [''/tmp/rgbd.pid'' \<mapsto> ''not a pid\<newline>''] Map.empty)
   \<and> stop False (machine (init demo_config) [''/tmp/rgbd.pid'' \<mapsto> ''not a pid\<newline>''] Map.empty)
     = (Raise ValueError, machine (init demo_config) [''/tmp/rgbd.pid'' \<mapsto> ''not a pid\<newline>''] Map.empty)"
proof -
  let ?s = "machine (init demo_config) [''/tmp/rgbd.pid'' \<mapsto> ''not a pid\<newline>''] Map.empty"
  have attr: "daemon_pidfile (self ?s) = Some ''/tmp/rgbd.pid''"
    by (simp add: machine_def init_demo)
  have disk: "fs ?s ''/tmp/rgbd.pid'' = Some ''not a pid\<newline>''"
    by (simp add: machine_def)
  from unparsable_pidfile [OF attr disk parse_garbage, of False] parse_garbage
  show ?thesis by simp
qed

subsection \<open>\<open>stop\<close> and \<open>restart\<close>\<close>

lemma remove_if_exists_absent:
  "daemon_pidfile (self s) = Some pf \<Longrightarrow> fs s pf = None \<Longrightarrow> remove_if_exists s = (Return (), s)"
  by (simp add: remove_if_exists_def and_then_def get_attr_def os_path_exists_def return_def)

lemma remove_if_exists_present:
  "daemon_pidfile (self s) = Some pf \<Longrightarrow> fs s pf = Some content \<Longrightarrow>
   remove_if_exists s = (Return (), perform (EvRemove pf) s)"
  by (simp add: remove_if_exists_def and_then_def get_attr_def os_path_exists_def os_remove_def emit_def)

lemma signal_and_probe_gone:
  "pid_t_ok n \<Longrightarrow> procs s n = None \<Longrightarrow> signal_and_probe (Some n) s = (Return False, s)"
  by (simp add: signal_and_probe_def try_except_def and_then_def os_kill_def return_def)

lemma signal_and_probe_stays:
  "pid_t_ok n \<Longrightarrow> procs s n = Some p \<Longrightarrow> may_signal p \<Longrightarrow> \<not> exits_on p SIGTERM \<Longrightarrow>
   signal_and_probe (Some n) s =
     (Return True, perform (EvKill n SIG0) (perform (EvSleep 300) (perform (EvKill n SIGTERM) s)))"
  by (simp add: signal_and_probe_def try_except_def and_then_def os_kill_def return_def
      time_sleep_def emit_def perform_def ends_target_def)

lemma signal_and_probe_exits:
  "pid_t_ok n \<Longrightarrow> procs s n = Some p \<Longrightarrow> may_signal p \<Longrightarrow> exits_on p SIGTERM \<Longrightarrow>
   signal_and_probe (Some n) s =
     (Return False, perform (EvSleep 300) (perform (EvKill n SIGTERM) s))"
  by (simp add: signal_and_probe_def try_except_def and_then_def os_kill_def return_def
      time_sleep_def emit_def perform_def ends_target_def)

lemma signal_and_probe_denied:
  "pid_t_ok n \<Longrightarrow> procs s n = Some p \<Longrightarrow> \<not> may_signal p \<Longrightarrow>
   signal_and_probe (Some n) s = (Exit 1, perform (EvStderr (unable_to_kill_msg (Some n))) s)"
  by (simp add: signal_and_probe_def try_except_def and_then_def os_kill_def
      stderr_write_def emit_def sys_exit_def)

lemma stop_absent:
  assumes "daemon_pidfile (self s) = Some pf" and "fs s pf = None"
  shows "stop r s = (Return (), if r then s else s\<lparr>trace := trace s @ [EvStderr no_pid_msg]\<rparr>)"
  using read_pid_absent [OF assms] remove_if_exists_absent [OF assms]
  by (simp add: stop_def and_then_def truthy_def return_def stderr_write_def emit_def perform_def)

lemma stop_hung:
  assumes "daemon_pidfile (self s) = Some pf" and "fs s pf = Some content"
    and "py_int (py_strip content) = Some n" and "n \<noteq> 0" and "pid_t_ok n"
    and "procs s n = Some p" and "may_signal p" and "\<not> exits_on p SIGTERM"
  shows "stop r s = (Exit 1, s\<lparr>trace := trace s @ hang_events n\<rparr>)"
  using assms read_pid_parsed [OF assms(1-3)] signal_and_probe_stays [OF assms(5-8)]
  by (simp add: stop_def and_then_def truthy_def perform_def stderr_write_def emit_def sys_exit_def
      ends_target_def hang_events_def)

text \<open>
  The second scenario of the spec: a process that exits on the terminate signal. The
  pidfile is removed after the sleep and \<open>stop\<close> returns.
\<close>

lemma stop_exited:
  assumes "daemon_pidfile (self s) = Some pf" and "fs s pf = Some content"
    and "py_int (py_strip content) = Some n" and "n \<noteq> 0" and "pid_t_ok n"
    and "procs s n = Some p" and "may_signal p" and "exits_on p SIGTERM"
  shows "stop r s = (Return (), s\<lparr>fs := (fs s)(pf := None), procs := (procs s)(n := None),
           trace := trace s @ [EvKill n SIGTERM, EvSleep 300, EvRemove pf]\<rparr>)"
proof -
  let ?s1 = "perform (EvSleep 300) (perform (EvKill n SIGTERM) s)"
  have "daemon_pidfile (self ?s1) = Some pf" "fs ?s1 pf = Some content"
    using assms by (simp_all add: perform_def ends_target_def)
  from remove_if_exists_present [OF this]
  show ?thesis
    using assms read_pid_parsed [OF assms(1-3)] signal_and_probe_exits [OF assms(5-8)]
    by (simp add: stop_def and_then_def truthy_def perform_def ends_target_def)
qed

text \<open>
  A process that the caller may not signal: \<open>stop\<close> reports that and exits with status
  1, without the sleep and with the pidfile left in place.
\<close>

lemma stop_denied:
  assumes "daemon_pidfile (self s) = Some pf" and "fs s pf = Some content"
    and "py_int (py_strip content) = Some n" and "n \<noteq> 0" and "pid_t_ok n"
    and "procs s n = Some p" and "\<not> may_signal p"
  shows "stop r s = (Exit 1, s\<lparr>trace := trace s @ [EvStderr (unable_to_kill_msg (Some n))]\<rparr>)"
  using assms read_pid_parsed [OF assms(1-3)] signal_and_probe_denied [OF assms(5-7)]
  by (simp add: stop_def and_then_def truthy_def perform_def)

text \<open>An integer that \<open>pid_t\<close> cannot hold: the \<open>OverflowError\<close> of \<open>os.kill\<close> is not caught.\<close>

lemma stop_out_of_range:
  assumes "daemon_pidfile (self s) = Some pf" and "fs s pf = Some content"
    and "py_int (py_strip content) = Some n" and "\<not> pid_t_ok n"
  shows "stop r s = (Raise OverflowError, s)"
proof -
  have "n \<noteq> 0"
    using assms(4) by (auto simp add: pid_t_ok_def)
  then show ?thesis
    using assms read_pid_parsed [OF assms(1-3)]
    by (simp add: stop_def and_then_def truthy_def signal_and_probe_def try_except_def os_kill_def)
qed

text \<open>
  Claim C4. When the pidfile holds the PID of a process that does not exist, \<open>stop\<close>
  removes the pidfile and returns. Nothing is written to any stream and nothing is
  signalled: the removal is the only effect. A process ID is a value of the type
  \<open>pid_t\<close> and never 0.
\<close>

theorem stop_stale_pidfile:
  assumes "daemon_pidfile (self s) = Some pf" and "fs s pf = Some content"
    and "py_int (py_strip content) = Some n" and "n \<noteq> 0" and "pid_t_ok n"
    and "procs s n = None"
  shows "stop r s = (Return (), s\<lparr>fs := (fs s)(pf := None), trace := trace s @ [EvRemove pf]\<rparr>)"
  using assms read_pid_parsed [OF assms(1-3)] signal_and_probe_gone [OF assms(5,6)]
    remove_if_exists_present [OF assms(1,2)]
  by (simp add: stop_def and_then_def truthy_def perform_def)

theorem stop_stale_pidfile_witness:
  "py_int (py_strip ''4242\<newline>'') = Some 4242 \<and> pid_t_ok 4242
   \<and> procs (machine (init demo_config) [''/tmp/rgbd.pid'' \<mapsto> ''4242\<newline>''] Map.empty) 4242 = None
   \<and> stop False (machine (init demo_config) [''/tmp/rgbd.pid'' \<mapsto> ''4242\<newline>''] Map.empty)
     = (Return (),
        (machine (init demo_config) Map.empty Map.empty)\<lparr>trace := [EvRemove ''/tmp/rgbd.pid'']\<rparr>)"
proof -
  let ?s = "machine (init demo_config) [''/tmp/rgbd.pid'' \<mapsto> ''4242\<newline>''] Map.empty"
  have attr: "daemon_pidfile (self ?s) = Some ''/tmp/rgbd.pid''"
    by (simp add: machine_def init_demo)
  have disk: "fs ?s ''/tmp/rgbd.pid'' = Some ''4242\<newline>''"
    by (simp add: machine_def)
  have nonzero: "(4242 :: int) \<noteq> 0"
    by simp
  have range: "pid_t_ok 4242"
    by (simp add: pid_t_ok_def)
  have gone: "procs ?s 4242 = None"
    by (simp add: machine_def)
  from stop_stale_pidfile [OF attr disk parse_4242 nonzero range gone, of False] range gone
  show ?thesis by (simp add: machine_def parse_4242)
qed

text \<open>
  Claim C5. When the pidfile holds the PID of a process that takes the terminate signal
  and stays, \<open>stop\<close> signals it, sleeps 0.3 seconds, probes it, reports the hang and
  exits with status 1. The pidfile is left as it was. A second \<open>stop\<close> in the state the
  first one left does the same again.
\<close>

theorem stop_unresponsive:
  assumes "daemon_pidfile (self s) = Some pf" and "fs s pf = Some content"
    and "py_int (py_strip content) = Some n" and "n \<noteq> 0" and "pid_t_ok n"
    and "procs s n = Some p" and "may_signal p" and "\<not> exits_on p SIGTERM"
  shows "stop r s = (Exit 1, s\<lparr>trace := trace s @ hang_events n\<rparr>)
    \<and> stop r (s\<lparr>trace := trace s @ hang_events n\<rparr>)
        = (Exit 1, s\<lparr>trace := trace s @ hang_events n @ hang_events n\<rparr>)
    \<and> fs (snd (stop r s)) pf = Some content
    \<and> EvSleep 300 \<in> set (new_events s (snd (stop r s)))"
proof -
  let ?s1 = "s\<lparr>trace := trace s @ hang_events n\<rparr>"
  have first: "stop r s = (Exit 1, ?s1)"
    using assms by (rule stop_hung)
  have "stop r ?s1 = (Exit 1, ?s1\<lparr>trace := trace ?s1 @ hang_events n\<rparr>)"
    by (rule stop_hung [where pf = pf and content = content and p = p]) (use assms in simp_all)
  then have second: "stop r ?s1 = (Exit 1, s\<lparr>trace := trace s @ hang_events n @ hang_events n\<rparr>)"
    by simp
  show ?thesis
    using first second assms(2) by (simp add: new_events_def hang_events_def)
qed

theorem stop_unresponsive_witness:
  "py_int (py_strip ''4242\<newline>'') = Some 4242 \<and> pid_t_ok 4242 \<and> may_signal stubborn
   \<and> \<not> exits_on stubborn SIGTERM
   \<and> stop False (machine (init demo_config) [''/tmp/rgbd.pid'' \<mapsto> ''4242\<newline>''] [4242 \<mapsto> stubborn])
     = (Exit 1,
        (machine (init demo_config) [''/tmp/rgbd.pid'' \<mapsto> ''4242\<newline>''] [4242 \<mapsto> stubborn])
          \<lparr>trace := [EvKill 4242 SIGTERM, EvSleep 300, EvKill 4242 SIG0, EvStderr hung_msg]\<rparr>)"
proof -
  let ?s = "machine (init demo_config) [''/tmp/rgbd.pid'' \<mapsto> ''4242\<newline>''] [4242 \<mapsto> stubborn]"
  have attr: "daemon_pidfile (self ?s) = Some ''/tmp/rgbd.pid''"
    by (simp add: machine_def init_demo)
  have disk: "fs ?s ''/tmp/rgbd.pid'' = Some ''4242\<newline>''"
    by (simp add: machine_def)
  have nonzero: "(4242 :: int) \<noteq> 0"
    by simp
  have range: "pid_t_ok 4242"
    by (simp add: pid_t_ok_def)
  have there: "procs ?s 4242 = Some stubborn"
    by (simp add: machine_def)
  have allowed: "may_signal stubborn" and stays: "\<not> exits_on stubborn SIGTERM"
    by (simp_all add: stubborn_def)
  have "trace ?s = []"
    by (simp add: machine_def)
  with stop_unresponsive [OF attr disk parse_4242 nonzero range there allowed stays, of False]
    range allowed stays
  show ?thesis by (simp add: parse_4242 hang_events_def)
qed

text \<open>On the example machine the daemon reaches its loop, whatever the files are.\<close>

lemma machine_loop:
  "fst (and_then daemonize (\<lambda>_. run) (machine (init demo_config) files table)) = NoReturn
   \<and> fs (snd (and_then daemonize (\<lambda>_. run) (machine (init demo_config) files table)))
        ''/tmp/rgbd.pid'' = Some (line (show_int 4002))"
proof -
  let ?s = "machine (init demo_config) files table"
  have conf: "c_daemonize demo_config \<noteq> Some False"
    by (simp add: demo_config_def)
  have "self ?s = init demo_config"
    and "daemon_pidfile (self ?s) = Some ''/tmp/rgbd.pid''"
    and "forks ?s (nforks ?s) = InChild 4001" and "forks ?s (Suc (nforks ?s)) = InChild 4002"
    and "3 \<le> py_major ?s" and "uid ?s \<noteq> 0" and "euid ?s \<noteq> 0" and "gid ?s \<noteq> 0"
    and "spawn ?s = Some (4100, stubborn)"
    by (simp_all add: machine_def init_demo)
  from daemonize_run_loop [OF this(1) conf this(2-)] show ?thesis
    by simp
qed

text \<open>
  Claim C7. With no pidfile, \<open>stop\<close> returns and changes nothing but the trace: it
  writes the warning to the error stream exactly when it is not part of a restart. So
  \<open>restart\<close> on a stopped instance is \<open>start\<close>: same outcome, same state, same effects.
\<close>

theorem stop_without_pidfile:
  assumes "daemon_pidfile (self s) = Some pf" and "fs s pf = None"
  shows "stop r s = (Return (), if r then s else s\<lparr>trace := trace s @ [EvStderr no_pid_msg]\<rparr>)
    \<and> (new_events s (snd (stop r s)) = [EvStderr no_pid_msg]) = (\<not> r)
    \<and> new_events s (snd (stop True s)) = []
    \<and> restart s = start s"
proof -
  have st: "stop r s = (Return (), if r then s else s\<lparr>trace := trace s @ [EvStderr no_pid_msg]\<rparr>)" for r
    using assms by (rule stop_absent)
  have "restart s = start s"
    using st [of True] by (simp add: restart_def and_then_def)
  then show ?thesis
    using st [of r] st [of True] by (simp add: new_events_def)
qed

theorem stop_without_pidfile_witness:
  "fs (machine (init demo_config) Map.empty Map.empty) ''/tmp/rgbd.pid'' = None
   \<and> stop False (machine (init demo_config) Map.empty Map.empty)
     = (Return (), (machine (init demo_config) Map.empty Map.empty)\<lparr>trace := [EvStderr no_pid_msg]\<rparr>)
   \<and> stop True (machine (init demo_config) Map.empty Map.empty)
     = (Return (), machine (init demo_config) Map.empty Map.empty)
   \<and> restart (machine (init demo_config) Map.empty Map.empty)
     = start (machine (init demo_config) Map.empty Map.empty)
   \<and> fst (restart (machine (init demo_config) Map.empty Map.empty)) = NoReturn"
proof -
  let ?s = "machine (init demo_config) Map.empty Map.empty"
  have attr: "daemon_pidfile (self ?s) = Some ''/tmp/rgbd.pid''"
    by (simp add: machine_def init_demo)
  have disk: "fs ?s ''/tmp/rgbd.pid'' = None"
    by (simp add: machine_def)
  have loop: "fst (start ?s) = NoReturn"
    using start_absent [OF attr disk] machine_loop [of Map.empty Map.empty] by simp
  have "trace ?s = []"
    by (simp add: machine_def)
  with stop_without_pidfile [OF attr disk, of False] stop_without_pidfile [OF attr disk, of True]
    disk loop
  show ?thesis by simp
qed

text \<open>
  Claim C9. A pidfile whose content converts to 0 counts as no pidfile. \<open>start\<close> goes on
  to \<open>daemonize\<close> and \<open>run\<close>, as it does from the same state without the file; the
  refusal with status 1 is not taken. \<open>stop\<close> removes the file and then does what it
  does without a pidfile (the warning, unless it is part of a restart); it sends no
  signal.
\<close>

theorem zero_pidfile:
  assumes "daemon_pidfile (self s) = Some pf" and "fs s pf = Some content"
    and "py_int (py_strip content) = Some 0"
  shows "start s = and_then daemonize (\<lambda>_. run) s
    \<and> start (s\<lparr>fs := (fs s)(pf := None)\<rparr>)
        = and_then daemonize (\<lambda>_. run) (s\<lparr>fs := (fs s)(pf := None)\<rparr>)
    \<and> stop r s =
        (Return (),
         s\<lparr>fs := (fs s)(pf := None),
           trace := trace s @ EvRemove pf # (if r then [] else [EvStderr no_pid_msg])\<rparr>)
    \<and> stop r (s\<lparr>fs := (fs s)(pf := None)\<rparr>) =
        (Return (),
         s\<lparr>fs := (fs s)(pf := None),
           trace := trace s @ (if r then [] else [EvStderr no_pid_msg])\<rparr>)
    \<and> \<not> list_ex is_kill (new_events s (snd (stop r s)))"
proof -
  let ?s0 = "s\<lparr>fs := (fs s)(pf := None)\<rparr>"
  have absent: "daemon_pidfile (self ?s0) = Some pf" "fs ?s0 pf = None"
    using assms by simp_all
  have start_here: "start s = and_then daemonize (\<lambda>_. run) s"
    using read_pid_parsed [OF assms]
    by (simp add: start_def and_then_def truthy_def return_def)
  have stop_here: "stop r s =
        (Return (),
         s\<lparr>fs := (fs s)(pf := None),
           trace := trace s @ EvRemove pf # (if r then [] else [EvStderr no_pid_msg])\<rparr>)"
    using read_pid_parsed [OF assms] remove_if_exists_present [OF assms(1,2)]
    by (simp add: stop_def and_then_def truthy_def perform_def stderr_write_def emit_def return_def)
  have stop_there: "stop r ?s0 =
        (Return (),
         s\<lparr>fs := (fs s)(pf := None),
           trace := trace s @ (if r then [] else [EvStderr no_pid_msg])\<rparr>)"
    using stop_absent [OF absent, of r] by simp
  show ?thesis
    using start_here start_absent [OF absent] stop_here stop_there
    by (simp add: new_events_def)
qed

theorem zero_pidfile_witness:
  "py_int (py_strip ''0\<newline>'') = Some 0
   \<and> fst (start (machine (init demo_config) [''/tmp/rgbd.pid'' \<mapsto> ''0\<newline>''] Map.empty)) = NoReturn
   \<and> fs (snd (start (machine (init demo_config) [''/tmp/rgbd.pid'' \<mapsto> ''0\<newline>''] Map.empty)))
        ''/tmp/rgbd.pid'' = Some (line (show_int 4002))
   \<and> stop False (machine (init demo_config) [''/tmp/rgbd.pid'' \<mapsto> ''0\<newline>''] Map.empty)
     = (Return (),
        (machine (init demo_config) Map.empty Map.empty)
          \<lparr>trace := [EvRemove ''/tmp/rgbd.pid'', EvStderr no_pid_msg]\<rparr>)"
proof -
  let ?s = "machine (init demo_config) [''/tmp/rgbd.pid'' \<mapsto> ''0\<newline>''] Map.empty"
  have attr: "daemon_pidfile (self ?s) = Some ''/tmp/rgbd.pid''"
    by (simp add: machine_def init_demo)
  have disk: "fs ?s ''/tmp/rgbd.pid'' = Some ''0\<newline>''"
    by (simp add: machine_def)
  note loop = machine_loop [of "[''/tmp/rgbd.pid'' \<mapsto> ''0\<newline>'']" Map.empty]
  have "trace ?s = []"
    by (simp add: machine_def)
  with zero_pidfile [OF attr disk parse_zero, of False] loop parse_zero
  show ?thesis by (simp add: machine_def)
qed

text \<open>
  Claim C8. With \<open>daemonize\<close> set to false the constructor returns before it assigns the
  pidfile path and the other \<open>daemon_\<close> attributes. On the object it leaves, \<open>start\<close> and
  \<open>stop\<close> end with an uncaught \<open>AttributeError\<close> at their first statement, and so does
  \<open>cleanup\<close> (at the first attribute it reads: the strip when blanking is configured,
  the listener otherwise). None of the three has any effect.
\<close>

theorem foreground_breaks:
  assumes "c_daemonize c = Some False" and "self s = init c"
  shows "daemon_pidfile (self s) = None \<and> daemon_chdir (self s) = None
    \<and> daemon_stdin (self s) = None \<and> daemon_in_md (self s) = None
    \<and> daemon_stdout (self s) = None \<and> daemon_out_md (self s) = None
    \<and> daemon_stderr (self s) = None \<and> daemon_err_md (self s) = None
    \<and> start s = (Raise (AttributeError ''daemon_pidfile''), s)
    \<and> stop r s = (Raise (AttributeError ''daemon_pidfile''), s)
    \<and> cleanup s =
        (Raise (AttributeError (if blank_on_exit (self s) then ''strip'' else ''listener_thread'')), s)"
proof -
  have attrs: "daemon_pidfile (self s) = None" "listener_thread (self s) = None" "strip (self s) = None"
    using assms by (simp_all add: init_foreground)
  have "start s = (Raise (AttributeError ''daemon_pidfile''), s)"
    using read_pid_unset [OF attrs(1)] by (simp add: start_def and_then_def)
  moreover have "stop r s = (Raise (AttributeError ''daemon_pidfile''), s)"
    using read_pid_unset [OF attrs(1)] by (simp add: stop_def and_then_def)
  moreover have "cleanup s =
        (Raise (AttributeError (if blank_on_exit (self s) then ''strip'' else ''listener_thread'')), s)"
    using attrs by (simp add: cleanup_def terminate_listener_def and_then_def get_attr_def return_def)
  ultimately show ?thesis
    using assms by (simp add: init_foreground)
qed

theorem foreground_breaks_witness:
  "c_daemonize foreground_config = Some False
   \<and> daemon_pidfile (init foreground_config) = None
   \<and> start (machine (init foreground_config) Map.empty Map.empty)
     = (Raise (AttributeError ''daemon_pidfile''), machine (init foreground_config) Map.empty Map.empty)
   \<and> stop False (machine (init foreground_config) Map.empty Map.empty)
     = (Raise (AttributeError ''daemon_pidfile''), machine (init foreground_config) Map.empty Map.empty)
   \<and> cleanup (machine (init foreground_config) Map.empty Map.empty)
     = (Raise (AttributeError ''listener_thread''), machine (init foreground_config) Map.empty Map.empty)"
proof -
  let ?s = "machine (init foreground_config) Map.empty Map.empty"
  have conf: "c_daemonize foreground_config = Some False"
    by (simp add: foreground_config_def)
  have obj: "self ?s = init foreground_config"
    by (simp add: machine_def)
  have "\<not> blank_on_exit (init foreground_config)"
    by (simp add: init_def foreground_config_def get_default_def)
  with foreground_breaks [OF conf obj, of False] conf obj
  show ?thesis by simp
qed

subsection \<open>\<open>cleanup\<close>\<close>

lemmas cleanup_defs =
  cleanup_def terminate_listener_def and_then_def get_attr_def os_kill_def join_def is_alive_def
  emit_def perform_def ends_target_def print_def return_def try_except_def blank_strip_def
  os_remove_def sys_exit_def



text \<open>
  Without the pidfile attribute \<open>cleanup\<close> cannot succeed even when the listener and the
  strip are there: it ends the child and then fails at the removal.
\<close>

lemma cleanup_unset_pidfile:
  assumes "listener_thread (self s) = Some (Process (Some c))" and "pid_t_ok c"
    and "procs s c = Some p" and "may_signal p"
    and "blank_on_exit (self s) \<longrightarrow> strip (self s) \<noteq> None"
    and "daemon_pidfile (self s) = None"
  shows "fst (cleanup s) = Raise (AttributeError ''daemon_pidfile'')
    \<and> procs (snd (cleanup s)) c = None"
  using assms by (auto simp add: cleanup_defs)










end
